theory Spec2Isabelle
  imports Complex_Main
begin

section \<open>The viewport engine of svelte-svg-viewer\<close>

text \<open>
  The engine is the closure built by \<open>createViewer\<close> in
  \<open>src/lib/internal/SVGViewer.ts\<close>. Its stores and private variables are the
  fields of one record, and every listener and method is a function from that record
  to the updated record.

  A JavaScript \<open>number\<close> is modelled as a \<open>real\<close>: arithmetic is exact, and there
  is neither rounding nor \<open>NaN\<close> nor \<open>Infinity\<close>. HOL's \<open>a / 0\<close> is \<open>0\<close>, which
  is not what JavaScript computes, so a theorem whose conclusion depends on the value
  of a quotient assumes the divisor to be non-zero.

  The effect that re-clamps the position when \<open>lockToBoundaries\<close> changes and the
  resize observer of \<open>SVGViewer.svelte\<close> are called by none of the listeners and
  methods, and are not part of the model.
\<close>

subsection \<open>Data\<close>

text \<open>\<open>Position\<close> of \<open>types.ts\<close>: \<open>{ x: number; y: number }\<close>.\<close>

record Position =
  posX :: real
  posY :: real

text \<open>\<open>PinchBehavior\<close> of \<open>types.ts\<close>.\<close>

datatype PinchBehavior = zoomDrag | zoomOnly

text \<open>
  What \<open>getBoundingClientRect()\<close> returns. An element reference
  (\<open>SVGElement | undefined\<close>) is modelled by the rectangle measured on it while the
  handler runs: \<open>None\<close> is \<open>undefined\<close>.
\<close>

record DOMRect =
  rectX :: real
  rectY :: real
  width :: real
  height :: real

text \<open>
  The fields a handler reads from a \<open>MouseEvent\<close> or a \<open>Touch\<close>, the further ones
  of a \<open>WheelEvent\<close>, the list \<open>touches\<close> of a \<open>TouchEvent\<close>, and \<open>key\<close> and
  \<open>repeat\<close> of a \<open>KeyboardEvent\<close>.
\<close>

record Pointer =
  clientX :: real
  clientY :: real

record WheelEvent = Pointer +
  deltaX :: real
  deltaY :: real

record TouchEvent =
  touches :: "Pointer list"


text \<open>
  The variables closed over by \<open>createViewer\<close>: the four numeric options, the
  stores (\<open>position\<close>, \<open>ignoreScale\<close>, \<open>scale\<close>, \<open>lockToBoundaries\<close>, \<open>actionKey\<close>,
  \<open>pinchBehavior\<close>, \<open>isMoving\<close>), the two element references and the private
  gesture variables. \<open>lastDistance\<close> is declared without a value, so it starts as
  \<open>undefined\<close> (\<open>None\<close>).
\<close>

record ViewerState =
  minScale :: real
  maxScale :: real
  scaleMouseSensitivity :: real
  scaleTouchpadSensitivity :: real
  position :: Position
  ignoreScale :: bool
  scale :: real
  lockToBoundaries :: bool
  actionKey :: "string option"
  pinchBehavior :: PinchBehavior
  viewerRef :: "DOMRect option"
  containerRef :: "DOMRect option"
  offset :: Position
  lastCenter :: "Position option"
  lastDistance :: "real option"
  hasActionKeyPressed :: bool
  hasPointerDown :: bool
  isMoving :: bool

text \<open>Reading \<open>touches[0]\<close> of an empty list and then a field of it throws.\<close>

datatype error = TypeError

subsection \<open>Change interceptors and the overridable stores\<close>

definition onLockChange :: "bool \<Rightarrow> bool \<Rightarrow> bool" where
  "onLockChange cur nxt = nxt"

definition onPositionChange :: "Position \<Rightarrow> Position \<Rightarrow> Position" where
  "onPositionChange cur nxt = nxt"

definition onScaleChange :: "ViewerState \<Rightarrow> real \<Rightarrow> real \<Rightarrow> real" where
  "onScaleChange s cur nxt =
     (if ignoreScale s then nxt
      else if nxt > maxScale s then cur
      else if nxt < minScale s then cur
      else nxt)"

text \<open>
  Modelled from the spec: \<open>overridable\<close> is imported from \<open>./index.js\<close>, which is
  not among the sources. Section 4.1 of the specification: every \<open>set(proposed)\<close> or
  \<open>update(fn)\<close> computes \<open>proposed = fn(current)\<close> and replaces the stored value
  with \<open>interceptor(current, proposed)\<close>.
\<close>

definition scale_store_set :: "ViewerState \<Rightarrow> real \<Rightarrow> ViewerState" where
  "scale_store_set s v = s\<lparr>scale := onScaleChange s (scale s) v\<rparr>"

definition position_store_update :: "ViewerState \<Rightarrow> (Position \<Rightarrow> Position) \<Rightarrow> ViewerState" where
  "position_store_update s f = s\<lparr>position := onPositionChange (position s) (f (position s))\<rparr>"

definition position_store_set :: "ViewerState \<Rightarrow> Position \<Rightarrow> ViewerState" where
  "position_store_set s p = position_store_update s (\<lambda>_. p)"

subsection \<open>Geometry utilities\<close>

definition getMousePosition :: "'a Pointer_scheme \<Rightarrow> DOMRect \<Rightarrow> Position" where
  "getMousePosition event rect =
     \<lparr>posX = clientX event - rectX rect, posY = clientY event - rectY rect\<rparr>"


definition getPinchCenter :: "Position \<Rightarrow> Position \<Rightarrow> Position" where
  "getPinchCenter touch1Pos touch2Pos =
     \<lparr>posX = (posX touch1Pos + posX touch2Pos) / 2,
      posY = (posY touch1Pos + posY touch2Pos) / 2\<rparr>"

definition getPinchDistance :: "Position \<Rightarrow> Position \<Rightarrow> real" where
  "getPinchDistance touch1Pos touch2Pos =
     sqrt ((posX touch2Pos - posX touch1Pos)\<^sup>2 + (posY touch2Pos - posY touch1Pos)\<^sup>2)"


subsection \<open>Fit and boundary methods\<close>

text \<open>
  \<open>Math.min(0, Math.max(p, -(content - frame)))\<close>, the clamp that \<open>panTo\<close>, \<open>pan\<close>
  and \<open>zoom\<close> each write out for both axes.
\<close>

definition lockClamp :: "real \<Rightarrow> real \<Rightarrow> real \<Rightarrow> real" where
  "lockClamp p content frame = min 0 (max p (- (content - frame)))"

definition panTo :: "ViewerState \<Rightarrow> real \<Rightarrow> real \<Rightarrow> ViewerState" where
  "panTo s x0 y0 =
     (case (containerRef s, viewerRef s) of
        (Some containerRect, Some viewerRect) \<Rightarrow>
          (let x1 = (if lockToBoundaries s
                     then lockClamp x0 (width containerRect) (width viewerRect) else x0);
               y1 = (if lockToBoundaries s
                     then lockClamp y0 (height containerRect) (height viewerRect) else y0)
           in position_store_set s \<lparr>posX = x1, posY = y1\<rparr>)
      | _ \<Rightarrow> s)"

definition pan :: "ViewerState \<Rightarrow> real \<Rightarrow> real \<Rightarrow> ViewerState" where
  "pan s dx dy =
     (case (containerRef s, viewerRef s) of
        (Some containerRect, Some viewerRect) \<Rightarrow>
          (let newPosition = \<lparr>posX = posX (position s) + dx, posY = posY (position s) + dy\<rparr>;
               newPosition =
                 (if lockToBoundaries s
                  then \<lparr>posX = lockClamp (posX newPosition) (width containerRect) (width viewerRect),
                        posY = lockClamp (posY newPosition) (height containerRect) (height viewerRect)\<rparr>
                  else newPosition)
           in position_store_set s newPosition)
      | _ \<Rightarrow> s)"

text \<open>
  \<open>[scaleX, scaleY].reduce(...)\<close> without an initial value starts from \<open>scaleX\<close> and
  folds over the rest of the array.
\<close>

definition fitToViewer :: "ViewerState \<Rightarrow> bool \<Rightarrow> ViewerState" where
  "fitToViewer s forceScale =
     (case (containerRef s, viewerRef s) of
        (Some containerRect, Some viewerRect) \<Rightarrow>
          (let initialContainerHeight = height containerRect / scale s;
               initialContainerWidth = width containerRect / scale s;
               scaleY = height viewerRect / initialContainerHeight;
               scaleX = width viewerRect / initialContainerWidth;
               newScale =
                 (if lockToBoundaries s
                  then foldl (\<lambda>prev c. if \<bar>c - 1\<bar> < \<bar>prev - 1\<bar> then c else prev) scaleX [scaleY]
                  else (scaleY + scaleX) / 2);
               newScale =
                 (if \<not> forceScale then max (minScale s) (min (maxScale s) newScale) else newScale)
           in position_store_set (scale_store_set s newScale) \<lparr>posX = 0, posY = 0\<rparr>)
      | _ \<Rightarrow> s)"

text \<open>The value of \<open>newScale\<close> in \<open>zoom\<close> after the clamp guarded by \<open>$ignoreScale\<close>.\<close>

definition zoom_newScale :: "ViewerState \<Rightarrow> real \<Rightarrow> real" where
  "zoom_newScale s newScale =
     (if \<not> ignoreScale s
      then (let n1 = (if newScale > maxScale s then maxScale s else newScale)
            in if n1 < minScale s then minScale s else n1)
      else newScale)"

definition zoom :: "ViewerState \<Rightarrow> real \<Rightarrow> real \<Rightarrow> real \<Rightarrow> ViewerState" where
  "zoom s x0 y0 newScale0 =
     (case (containerRef s, viewerRef s) of
        (Some containerRect, Some viewerRect) \<Rightarrow>
          (let oldScale = scale s;
               newScale = zoom_newScale s newScale0;
               scaleDiff = newScale / oldScale;
               scaledContainerWidth = width containerRect * scaleDiff;
               scaledContainerHeight = height containerRect * scaleDiff
           in if lockToBoundaries s \<and>
                 (scaledContainerWidth < width viewerRect \<or>
                  scaledContainerHeight < height viewerRect)
              then fitToViewer s False
              else scale_store_set
                     (position_store_update s (\<lambda>p.
                        (let newX = scaleDiff * (posX p - x0) + x0;
                             newY = scaleDiff * (posY p - y0) + y0
                         in if lockToBoundaries s
                            then \<lparr>posX = lockClamp newX scaledContainerWidth (width viewerRect),
                                  posY = lockClamp newY scaledContainerHeight (height viewerRect)\<rparr>
                            else \<lparr>posX = newX, posY = newY\<rparr>)))
                     newScale)
      | _ \<Rightarrow> s)"


definition fitSelection :: "ViewerState \<Rightarrow> real \<Rightarrow> real \<Rightarrow> real \<Rightarrow> real \<Rightarrow> ViewerState" where
  "fitSelection s x0 y0 selectionWidth selectionHeight =
     (case (containerRef s, viewerRef s) of
        (Some containerRect, Some viewerRect) \<Rightarrow>
          (let scaleX = width viewerRect / selectionWidth;
               scaleY = height viewerRect / selectionHeight;
               newScale = min scaleX scaleY
           in scale_store_set
                (position_store_set s \<lparr>posX = - x0 * newScale, posY = - y0 * newScale\<rparr>)
                newScale)
      | _ \<Rightarrow> s)"

definition center :: "ViewerState \<Rightarrow> ViewerState" where
  "center s =
     (case (containerRef s, viewerRef s) of
        (Some containerRect, Some viewerRect) \<Rightarrow>
          position_store_set s
            \<lparr>posX = - (width containerRect - width viewerRect) / 2,
             posY = - (height containerRect - height viewerRect) / 2\<rparr>
      | _ \<Rightarrow> s)"

subsection \<open>Listeners\<close>




text \<open>
  The locals of \<open>onWheel\<close>. \<open>event.deltaY || event.deltaX\<close> is \<open>deltaY\<close> unless that
  is zero.
\<close>

definition wheel_delta :: "WheelEvent \<Rightarrow> real" where
  "wheel_delta event = (if deltaY event \<noteq> 0 then deltaY event else deltaX event)"

definition wheel_scaleStep :: "ViewerState \<Rightarrow> WheelEvent \<Rightarrow> real" where
  "wheel_scaleStep s event =
     (if \<bar>wheel_delta event\<bar> > 50 then scaleMouseSensitivity s else scaleTouchpadSensitivity s)"

definition wheel_scaleDelta :: "ViewerState \<Rightarrow> WheelEvent \<Rightarrow> real" where
  "wheel_scaleDelta s event =
     (if wheel_delta event < 0 then 1 / wheel_scaleStep s event else wheel_scaleStep s event)"

definition onWheel :: "ViewerState \<Rightarrow> WheelEvent \<Rightarrow> ViewerState" where
  "onWheel s event =
     (case (containerRef s, viewerRef s) of
        (Some containerRect, Some viewerRect) \<Rightarrow>
          if \<not> hasActionKeyPressed s then s
          else (let oldScale = scale s;
                    cursorPos = getMousePosition event viewerRect;
                    newScale = oldScale / wheel_scaleDelta s event
                in zoom s (posX cursorPos) (posY cursorPos) newScale)
      | _ \<Rightarrow> s)"


text \<open>
  \<open>!lastDistance\<close> holds for \<open>undefined\<close> and for \<open>0\<close>; then \<open>lastDistance\<close> is set
  to the new distance before it divides.
\<close>

definition onPinchMove :: "ViewerState \<Rightarrow> TouchEvent \<Rightarrow> error + ViewerState" where
  "onPinchMove s event =
     (case (containerRef s, viewerRef s) of
        (Some containerRect, Some viewerRect) \<Rightarrow>
          if isMoving s then Inr s
          else (case touches event of
                  touch1 # touch2 # _ \<Rightarrow>
                    (let touch1Pos = \<lparr>posX = clientX touch1, posY = clientY touch1\<rparr>;
                         touch2Pos = \<lparr>posX = clientX touch2, posY = clientY touch2\<rparr>;
                         newCenter = getPinchCenter touch1Pos touch2Pos
                     in case lastCenter s of
                          None \<Rightarrow> Inr (s\<lparr>lastCenter := Some newCenter\<rparr>)
                        | Some lastCenter0 \<Rightarrow>
                            (let distance = getPinchDistance touch1Pos touch2Pos;
                                 lastDistance0 =
                                   (case lastDistance s of
                                      None \<Rightarrow> distance
                                    | Some d \<Rightarrow> if d = 0 then distance else d);
                                 s1 = s\<lparr>lastDistance := Some lastDistance0\<rparr>;
                                 newScale = scale s * (distance / lastDistance0)
                             in if scale s = newScale then Inr s1
                                else (let scaleDiff = newScale / scale s;
                                          initialContainerHeight = height containerRect * scaleDiff;
                                          initialContainerWidth = width containerRect * scaleDiff
                                      in if newScale \<le> maxScale s \<and> newScale \<ge> minScale s \<and>
                                            initialContainerWidth > width viewerRect \<and>
                                            initialContainerHeight > height viewerRect
                                         then (let s2 =
                                                 (case pinchBehavior s of
                                                    zoomDrag \<Rightarrow>
                                                      (let newX = posX newCenter - posX lastCenter0;
                                                           newY = posY newCenter - posY lastCenter0
                                                       in pan (zoom s1 (posX newCenter) (posY newCenter) newScale)
                                                            (newX * scaleDiff) (newY * scaleDiff))
                                                  | zoomOnly \<Rightarrow>
                                                      zoom s1 (posX newCenter) (posY newCenter) newScale)
                                               in Inr (s2\<lparr>lastDistance := Some distance,
                                                          lastCenter := Some newCenter\<rparr>))
                                         else Inr s1)))
                | _ \<Rightarrow> Inl TypeError)
      | _ \<Rightarrow> Inr s)"





subsection \<open>The second copy of the engine\<close>

text \<open>
  \<open>src/unnamed/part_000\<close> is a second copy of \<open>createViewer\<close>. Apart from logging it
  differs from \<open>SVGViewer.ts\<close> in \<open>onTouchStart\<close>, which records no pinch offset, and
  in \<open>onPinchMove\<close>: its commit gate compares \<open>$scale * newScale\<close> with the limits,
  and its \<open>zoomDrag\<close> branch writes scale and position itself.
\<close>

definition onPinchMove_part_000 :: "ViewerState \<Rightarrow> TouchEvent \<Rightarrow> error + ViewerState" where
  "onPinchMove_part_000 s event =
     (case (containerRef s, viewerRef s) of
        (Some containerRect, Some viewerRect) \<Rightarrow>
          if isMoving s then Inr s
          else (case touches event of
                  touch1 # touch2 # _ \<Rightarrow>
                    (let touch1Pos = \<lparr>posX = clientX touch1, posY = clientY touch1\<rparr>;
                         touch2Pos = \<lparr>posX = clientX touch2, posY = clientY touch2\<rparr>;
                         newCenter = getPinchCenter touch1Pos touch2Pos
                     in case lastCenter s of
                          None \<Rightarrow> Inr (s\<lparr>lastCenter := Some newCenter\<rparr>)
                        | Some lastCenter0 \<Rightarrow>
                            (let distance = getPinchDistance touch1Pos touch2Pos;
                                 lastDistance0 =
                                   (case lastDistance s of
                                      None \<Rightarrow> distance
                                    | Some d \<Rightarrow> if d = 0 then distance else d);
                                 s1 = s\<lparr>lastDistance := Some lastDistance0\<rparr>;
                                 newScale = scale s * (distance / lastDistance0)
                             in if scale s = newScale then Inr s1
                                else if scale s * newScale \<le> maxScale s \<and>
                                        scale s * newScale \<ge> minScale s \<and>
                                        width containerRect * (newScale / scale s) > width viewerRect \<and>
                                        height containerRect * (newScale / scale s) > height viewerRect
                                     then (let s2 =
                                             (if pinchBehavior s = zoomDrag
                                              then (let pointTo =
                                                          \<lparr>posX = (posX newCenter - posX (position s)) / scale s,
                                                           posY = (posY newCenter - posY (position s)) / scale s\<rparr>
                                                    in position_store_update (scale_store_set s1 newScale)
                                                         (\<lambda>p.
                                                            (let newX = (posX newCenter - posX pointTo) * newScale;
                                                                 newY = (posY newCenter - posY pointTo) * newScale;
                                                                 newX = (if lockToBoundaries s
                                                                         then lockClamp newX
                                                                                (width containerRect * (newScale / scale s))
                                                                                (width viewerRect)
                                                                         else newX);
                                                                 newY = (if lockToBoundaries s
                                                                         then lockClamp newY
                                                                                (height containerRect * (newScale / scale s))
                                                                                (height viewerRect)
                                                                         else newY)
                                                             in if posX p = newX \<and> posY p = newY then p
                                                                else \<lparr>posX = newX, posY = newY\<rparr>)))
                                              else s1);
                                               s3 = (if pinchBehavior s = zoomOnly
                                                     then zoom s2 (posX newCenter) (posY newCenter) newScale
                                                     else s2)
                                           in Inr (s3\<lparr>lastDistance := Some distance,
                                                      lastCenter := Some newCenter\<rparr>))
                                     else Inr s1))
                | _ \<Rightarrow> Inl TypeError)
      | _ \<Rightarrow> Inr s)"

subsection \<open>Construction\<close>

text \<open>
  \<open>createViewer({})\<close>: every option takes its value from \<open>defaultProps\<close>, no element
  is attached yet.
\<close>

definition defaultViewer :: ViewerState where
  "defaultViewer =
     \<lparr>minScale = 0.6, maxScale = 1.4,
      scaleMouseSensitivity = 1.1, scaleTouchpadSensitivity = 1.06,
      position = \<lparr>posX = 0, posY = 0\<rparr>,
      ignoreScale = False, scale = 1, lockToBoundaries = False,
      actionKey = None, pinchBehavior = zoomOnly,
      viewerRef = None, containerRef = None,
      offset = \<lparr>posX = 0, posY = 0\<rparr>, lastCenter = None, lastDistance = None,
      hasActionKeyPressed = True, hasPointerDown = False, isMoving = False\<rparr>"

text \<open>
  The scenario of the specification: the defaults, a frame of 500 by 500 pixels and a
  content of 1000 by 1000 pixels, both attached.
\<close>

definition attachedViewer :: ViewerState where
  "attachedViewer =
     defaultViewer
       \<lparr>viewerRef := Some \<lparr>rectX = 0, rectY = 0, width = 500, height = 500\<rparr>,
        containerRef := Some \<lparr>rectX = 0, rectY = 0, width = 1000, height = 1000\<rparr>\<rparr>"

subsection \<open>Predicates of the specification\<close>

text \<open>
  \<open>SVGViewer.svelte\<close> renders the content group with \<open>transform="translate(...),
  scale($scale)"\<close>, so the size measured on it is its unscaled size times the scale.
  \<open>rescaled r oldScale newScale\<close> is the rectangle measured at \<open>newScale\<close> when \<open>r\<close>
  was measured at \<open>oldScale\<close>.
\<close>

definition rescaled :: "DOMRect \<Rightarrow> real \<Rightarrow> real \<Rightarrow> DOMRect" where
  "rescaled r oldScale newScale =
     r\<lparr>width := width r * (newScale / oldScale), height := height r * (newScale / oldScale)\<rparr>"

text \<open>
  The boundary invariant of the specification: the content rectangle, placed at
  position \<open>p\<close>, covers the frame rectangle on both axes.
\<close>

definition coversFrame :: "Position \<Rightarrow> DOMRect \<Rightarrow> DOMRect \<Rightarrow> bool" where
  "coversFrame p content frame =
     (- (width content - width frame) \<le> posX p \<and> posX p \<le> 0 \<and>
      - (height content - height frame) \<le> posY p \<and> posY p \<le> 0)"

text \<open>The condition under which \<open>zoom\<close> calls \<open>fitToViewer()\<close> and returns.\<close>

definition zoom_fallback :: "ViewerState \<Rightarrow> real \<Rightarrow> bool" where
  "zoom_fallback s newScale0 =
     (case (containerRef s, viewerRef s) of
        (Some containerRect, Some viewerRect) \<Rightarrow>
          (let scaleDiff = zoom_newScale s newScale0 / scale s
           in lockToBoundaries s \<and>
              (width containerRect * scaleDiff < width viewerRect \<or>
               height containerRect * scaleDiff < height viewerRect))
      | _ \<Rightarrow> False)"

text \<open>
  The position that \<open>zoom\<close> computes before its boundary clamp already satisfies the
  boundary invariant at the new scale, so that the clamp returns it unchanged.
\<close>

definition zoom_clamp_idle :: "ViewerState \<Rightarrow> real \<Rightarrow> real \<Rightarrow> real \<Rightarrow> bool" where
  "zoom_clamp_idle s x0 y0 newScale0 =
     (case (containerRef s, viewerRef s) of
        (Some containerRect, Some viewerRect) \<Rightarrow>
          (let scaleDiff = zoom_newScale s newScale0 / scale s
           in coversFrame
                \<lparr>posX = scaleDiff * (posX (position s) - x0) + x0,
                 posY = scaleDiff * (posY (position s) - y0) + y0\<rparr>
                (rescaled containerRect (scale s) (zoom_newScale s newScale0)) viewerRect)
      | _ \<Rightarrow> False)"

text \<open>The scenario with \<open>LockToBoundaries\<close> on, and with a content smaller than the frame.\<close>

definition lockedViewer :: ViewerState where
  "lockedViewer = attachedViewer\<lparr>lockToBoundaries := True\<rparr>"

definition smallContentViewer :: ViewerState where
  "smallContentViewer =
     attachedViewer
       \<lparr>lockToBoundaries := True,
        containerRef := Some \<lparr>rectX = 0, rectY = 0, width = 300, height = 300\<rparr>\<rparr>"

text \<open>
  The state in which the next handler runs after a call that took \<open>s\<close> to \<open>s'\<close>: the
  content has been rendered and is measured at the committed scale.
\<close>

definition remeasured :: "ViewerState \<Rightarrow> ViewerState \<Rightarrow> ViewerState" where
  "remeasured s s' =
     s'\<lparr>containerRef := map_option (\<lambda>r. rescaled r (scale s) (scale s')) (containerRef s')\<rparr>"

text \<open>
  The value of \<open>newScale\<close> in \<open>fitToViewer()\<close> (\<open>forceScale\<close> false) from the two axis
  ratios, with the \<open>reduce\<close> over the two-element array written out.
\<close>

definition fit_newScale :: "ViewerState \<Rightarrow> real \<Rightarrow> real \<Rightarrow> real" where
  "fit_newScale s scaleX scaleY =
     max (minScale s) (min (maxScale s)
       (if lockToBoundaries s
        then (if \<bar>scaleY - 1\<bar> < \<bar>scaleX - 1\<bar> then scaleY else scaleX)
        else (scaleY + scaleX) / 2))"



definition zoomedPinchingViewer :: ViewerState where
  "zoomedPinchingViewer =
     attachedViewer\<lparr>scale := 12 / 10,
                    lastCenter := Some \<lparr>posX = 60, posY = 0\<rparr>, lastDistance := Some 120\<rparr>"


section \<open>Properties\<close>

subsection \<open>The scale interceptor\<close>




text \<open>
  C10: with \<open>IgnoreScale\<close> false, a scale write whose proposed value lies outside
  \<open>[minScale, maxScale]\<close> is rejected, not clamped: the interceptor returns the
  current scale, and the scale stored after the write is the scale before it.
\<close>

theorem scale_write_rejected:
  assumes "\<not> ignoreScale s" and "nxt < minScale s \<or> maxScale s < nxt"
  shows "onScaleChange s cur nxt = cur \<and> scale (scale_store_set s nxt) = scale s"
  using assms by (auto simp add: onScaleChange_def scale_store_set_def)

theorem scale_write_rejected_witness:
  "\<not> ignoreScale defaultViewer \<and> maxScale defaultViewer < 2 \<and> 1 / 2 < minScale defaultViewer \<and>
   onScaleChange defaultViewer 1 2 = 1 \<and> scale (scale_store_set defaultViewer 2) = 1 \<and>
   onScaleChange defaultViewer 1 (1 / 2) = 1 \<and> scale (scale_store_set defaultViewer (1 / 2)) = 1"
  using scale_write_rejected [of defaultViewer 2 1]
        scale_write_rejected [of defaultViewer "1 / 2" 1]
  by (simp add: defaultViewer_def)

subsection \<open>Auxiliary facts\<close>

lemma position_store_set_position [simp]: "position (position_store_set s p) = p"
  by (simp add: position_store_set_def position_store_update_def onPositionChange_def)

lemma onScaleChange_position [simp]:
  "onScaleChange (s\<lparr>position := p\<rparr>) cur nxt = onScaleChange s cur nxt"
  by (simp add: onScaleChange_def)

lemma zoom_fallback_fitToViewer:
  "zoom_fallback s n \<Longrightarrow> zoom s x0 y0 n = fitToViewer s False"
  by (auto simp add: zoom_fallback_def zoom_def Let_def split: option.splits)

lemma zoom_newScale_accepted:
  "ignoreScale s \<or> minScale s \<le> maxScale s \<Longrightarrow>
     onScaleChange s cur (zoom_newScale s n) = zoom_newScale s n"
  by (auto simp add: onScaleChange_def zoom_newScale_def Let_def)

lemma zoom_newScale_rejected:
  "\<not> (ignoreScale s \<or> minScale s \<le> maxScale s) \<Longrightarrow>
     onScaleChange s cur (zoom_newScale s n) = cur"
  by (auto simp add: onScaleChange_def zoom_newScale_def Let_def)




lemma fitToViewer_attached:
  assumes "containerRef s = Some c" and "viewerRef s = Some v"
  shows "fitToViewer s False =
     s\<lparr>scale := onScaleChange s (scale s)
                   (fit_newScale s (width v / (width c / scale s)) (height v / (height c / scale s))),
       position := \<lparr>posX = 0, posY = 0\<rparr>\<rparr>"
  unfolding fitToViewer_def Let_def fit_newScale_def scale_store_set_def
    position_store_set_def position_store_update_def onPositionChange_def
  by (simp only: assms prod.case option.case foldl.simps simp_thms if_True if_False)






subsection \<open>Boundary locking\<close>

text \<open>
  C2, as stated, with \<open>LockToBoundaries\<close> on, a frame of 500 by 500 and a content
  of 300 by 300: \<open>panTo(10, 10)\<close> stores \<open>(0, 0)\<close>, and the content does not cover
  the frame, since \<open>-(300 - 500) \<le> 0\<close> is false.
\<close>

theorem panTo_small_content_exposed:
  "lockToBoundaries smallContentViewer \<and>
   containerRef smallContentViewer = Some \<lparr>rectX = 0, rectY = 0, width = 300, height = 300\<rparr> \<and>
   viewerRef smallContentViewer = Some \<lparr>rectX = 0, rectY = 0, width = 500, height = 500\<rparr> \<and>
   position (panTo smallContentViewer 10 10) = \<lparr>posX = 0, posY = 0\<rparr> \<and>
   \<not> coversFrame (position (panTo smallContentViewer 10 10))
        \<lparr>rectX = 0, rectY = 0, width = 300, height = 300\<rparr>
        \<lparr>rectX = 0, rectY = 0, width = 500, height = 500\<rparr>"
  by (simp add: smallContentViewer_def attachedViewer_def defaultViewer_def panTo_def
      lockClamp_def coversFrame_def)

text \<open>
  C2, amended: with \<open>LockToBoundaries\<close> on and both elements attached, the position
  after \<open>panTo\<close> or \<open>pan\<close> covers the frame provided the measured content is at
  least as large as the frame on both axes. The position after a \<open>zoom\<close> that does
  not take the \<open>fitToViewer\<close> branch covers the frame with the content rectangle at
  the resulting scale, provided the old scale is not zero and the scale write is
  accepted (\<open>IgnoreScale\<close>, or \<open>minScale \<le> maxScale\<close>); the resulting scale is then
  the requested one after the pre-clamp.
\<close>

theorem locked_moves_cover_frame:
  assumes "lockToBoundaries s" and "containerRef s = Some c" and "viewerRef s = Some v"
  shows "(width v \<le> width c \<and> height v \<le> height c \<longrightarrow>
            coversFrame (position (panTo s x0 y0)) c v \<and>
            coversFrame (position (pan s dx dy)) c v) \<and>
         (\<not> zoom_fallback s n \<and> scale s \<noteq> 0 \<and> (ignoreScale s \<or> minScale s \<le> maxScale s) \<longrightarrow>
            scale (zoom s x0 y0 n) = zoom_newScale s n \<and>
            coversFrame (position (zoom s x0 y0 n)) (rescaled c (scale s) (scale (zoom s x0 y0 n))) v)"
proof (intro conjI impI)
  assume big: "width v \<le> width c \<and> height v \<le> height c"
  show "coversFrame (position (panTo s x0 y0)) c v"
    using assms big by (simp add: panTo_def coversFrame_def lockClamp_def)
  show "coversFrame (position (pan s dx dy)) c v"
    using assms big by (simp add: pan_def coversFrame_def lockClamp_def)
next
  assume h: "\<not> zoom_fallback s n \<and> scale s \<noteq> 0 \<and> (ignoreScale s \<or> minScale s \<le> maxScale s)"
  have acc: "onScaleChange s (scale s) (zoom_newScale s n) = zoom_newScale s n"
    using h zoom_newScale_accepted by blast
  show sc: "scale (zoom s x0 y0 n) = zoom_newScale s n"
    using assms h acc
    by (simp add: zoom_def zoom_fallback_def Let_def scale_store_set_def
        position_store_update_def)
  show "coversFrame (position (zoom s x0 y0 n)) (rescaled c (scale s) (scale (zoom s x0 y0 n))) v"
    unfolding sc using assms h
    by (simp add: zoom_def zoom_fallback_def Let_def scale_store_set_def
        position_store_update_def onPositionChange_def coversFrame_def rescaled_def lockClamp_def)
qed

theorem locked_moves_cover_frame_witness:
  "lockToBoundaries lockedViewer \<and>
   \<not> zoom_fallback lockedViewer (12 / 10) \<and>
   coversFrame (position (panTo lockedViewer 10 (- 700)))
     \<lparr>rectX = 0, rectY = 0, width = 1000, height = 1000\<rparr>
     \<lparr>rectX = 0, rectY = 0, width = 500, height = 500\<rparr> \<and>
   coversFrame (position (pan lockedViewer 10 (- 700)))
     \<lparr>rectX = 0, rectY = 0, width = 1000, height = 1000\<rparr>
     \<lparr>rectX = 0, rectY = 0, width = 500, height = 500\<rparr> \<and>
   scale (zoom lockedViewer 250 250 (12 / 10)) = 12 / 10 \<and>
   coversFrame (position (zoom lockedViewer 250 250 (12 / 10)))
     (rescaled \<lparr>rectX = 0, rectY = 0, width = 1000, height = 1000\<rparr> 1
        (scale (zoom lockedViewer 250 250 (12 / 10))))
     \<lparr>rectX = 0, rectY = 0, width = 500, height = 500\<rparr>"
  using locked_moves_cover_frame
    [where s = lockedViewer
       and c = "\<lparr>rectX = 0, rectY = 0, width = 1000, height = 1000\<rparr>"
       and v = "\<lparr>rectX = 0, rectY = 0, width = 500, height = 500\<rparr>"
       and ?x0.0 = 10 and ?y0.0 = "- 700" and dx = 10 and dy = "- 700" and n = "12 / 10"]
    locked_moves_cover_frame
    [where s = lockedViewer
       and c = "\<lparr>rectX = 0, rectY = 0, width = 1000, height = 1000\<rparr>"
       and v = "\<lparr>rectX = 0, rectY = 0, width = 500, height = 500\<rparr>"
       and ?x0.0 = 250 and ?y0.0 = 250 and n = "12 / 10"]
  by (simp add: lockedViewer_def attachedViewer_def defaultViewer_def zoom_fallback_def
      zoom_newScale_def)

text \<open>
  C3, as stated, with \<open>LockToBoundaries\<close> on, a frame of 500 by 500 and a content of
  1000 by 1000 at scale 1: \<open>fitSelection(-100, -100, 500, 500)\<close> keeps the scale 1
  and writes the position \<open>(100, 100)\<close>, which leaves a strip of the frame uncovered.
\<close>

theorem fitSelection_exposes_frame:
  "lockToBoundaries lockedViewer \<and>
   position (fitSelection lockedViewer (- 100) (- 100) 500 500) = \<lparr>posX = 100, posY = 100\<rparr> \<and>
   scale (fitSelection lockedViewer (- 100) (- 100) 500 500) = 1 \<and>
   \<not> coversFrame (position (fitSelection lockedViewer (- 100) (- 100) 500 500))
        \<lparr>rectX = 0, rectY = 0, width = 1000, height = 1000\<rparr>
        \<lparr>rectX = 0, rectY = 0, width = 500, height = 500\<rparr>"
  by (simp add: lockedViewer_def attachedViewer_def defaultViewer_def fitSelection_def
      scale_store_set_def position_store_set_def position_store_update_def
      onPositionChange_def onScaleChange_def coversFrame_def)

text \<open>
  C3, amended: with \<open>LockToBoundaries\<close> on, a write to \<open>Position\<close> stores the
  proposed value as it is, the interceptor \<open>onPositionChange\<close> clamps nothing. The
  write of \<open>fitSelection\<close>, for \<open>w\<close> and \<open>h\<close> not zero, is \<open>(-x * k, -y * k)\<close> for
  \<open>k = min(frameWidth / w, frameHeight / h)\<close>, the write of \<open>center\<close> is \<open>(-(contentWidth - frameWidth) / 2,
  -(contentHeight - frameHeight) / 2)\<close>, and the latter satisfies the boundary
  invariant exactly when the content is at least as large as the frame on both axes.
\<close>

theorem position_writes_unclamped:
  assumes "lockToBoundaries s" and "containerRef s = Some c" and "viewerRef s = Some v"
    and "w \<noteq> 0" and "h \<noteq> 0"
  shows "position (position_store_set s p) = p \<and>
         position (position_store_update s f) = f (position s) \<and>
         position (fitSelection s x0 y0 w h) =
           \<lparr>posX = - x0 * min (width v / w) (height v / h),
            posY = - y0 * min (width v / w) (height v / h)\<rparr> \<and>
         position (center s) =
           \<lparr>posX = - (width c - width v) / 2, posY = - (height c - height v) / 2\<rparr> \<and>
         coversFrame (position (center s)) c v = (width v \<le> width c \<and> height v \<le> height c)"
  using assms
  by (auto simp add: position_store_set_def position_store_update_def onPositionChange_def
      fitSelection_def center_def scale_store_set_def coversFrame_def Let_def)

theorem position_writes_unclamped_witness:
  "lockToBoundaries lockedViewer \<and>
   position (position_store_set lockedViewer \<lparr>posX = 7, posY = 9\<rparr>) = \<lparr>posX = 7, posY = 9\<rparr> \<and>
   position (fitSelection lockedViewer (- 100) (- 100) 500 500) = \<lparr>posX = 100, posY = 100\<rparr> \<and>
   position (center lockedViewer) = \<lparr>posX = - 250, posY = - 250\<rparr> \<and>
   coversFrame (position (center lockedViewer))
     \<lparr>rectX = 0, rectY = 0, width = 1000, height = 1000\<rparr>
     \<lparr>rectX = 0, rectY = 0, width = 500, height = 500\<rparr>"
  using position_writes_unclamped
    [where s = lockedViewer
       and c = "\<lparr>rectX = 0, rectY = 0, width = 1000, height = 1000\<rparr>"
       and v = "\<lparr>rectX = 0, rectY = 0, width = 500, height = 500\<rparr>"
       and p = "\<lparr>posX = 7, posY = 9\<rparr>" and ?x0.0 = "- 100" and ?y0.0 = "- 100"
       and w = 500 and h = 500]
  by (simp add: lockedViewer_def attachedViewer_def defaultViewer_def coversFrame_def)

subsection \<open>Zoom\<close>

text \<open>
  C4, as stated, with \<open>LockToBoundaries\<close> on, a frame of 500 by 500, a content of
  1000 by 1000, position \<open>(0, 0)\<close> and scale 1: \<open>zoom(250, 250, 0.8)\<close> does not take
  the \<open>fitToViewer\<close> branch and commits the scale 0.8, but the boundary clamp moves
  the position to 0, so the content point 250 under the anchor 250 ends up at 200.
\<close>

theorem zoom_clamp_moves_anchor:
  "lockToBoundaries lockedViewer \<and> \<not> zoom_fallback lockedViewer (8 / 10) \<and>
   250 = posX (position lockedViewer) + 250 * scale lockedViewer \<and>
   scale (zoom lockedViewer 250 250 (8 / 10)) = 8 / 10 \<and>
   posX (position (zoom lockedViewer 250 250 (8 / 10))) +
     250 * scale (zoom lockedViewer 250 250 (8 / 10)) = 200"
  by (simp add: lockedViewer_def attachedViewer_def defaultViewer_def zoom_fallback_def
      zoom_newScale_def zoom_def scale_store_set_def position_store_update_def
      onPositionChange_def onScaleChange_def lockClamp_def Let_def)

text \<open>
  C4, amended: \<open>zoom(x, y, s)\<close> keeps the content point under the anchor \<open>(x, y)\<close>
  when the old scale is not zero and either \<open>LockToBoundaries\<close> is off, or the
  \<open>fitToViewer\<close> branch is not taken and the boundary clamp leaves the computed
  position as it is. The scale \<open>s1\<close> of the claim is the requested scale after the
  pre-clamp; it is the committed scale when the scale write is accepted
  (\<open>IgnoreScale\<close>, or \<open>minScale \<le> maxScale\<close>), and otherwise the old scale stays.
\<close>

theorem zoom_anchor:
  assumes "containerRef s = Some c" and "viewerRef s = Some v" and "scale s \<noteq> 0"
    and "\<not> lockToBoundaries s \<or> (\<not> zoom_fallback s n \<and> zoom_clamp_idle s x0 y0 n)"
    and "x0 = posX (position s) + cx * scale s"
    and "y0 = posY (position s) + cy * scale s"
  shows "x0 = posX (position (zoom s x0 y0 n)) + cx * zoom_newScale s n \<and>
         y0 = posY (position (zoom s x0 y0 n)) + cy * zoom_newScale s n \<and>
         (if ignoreScale s \<or> minScale s \<le> maxScale s
          then scale (zoom s x0 y0 n) = zoom_newScale s n
          else scale (zoom s x0 y0 n) = scale s)"
proof -
  define k where "k = zoom_newScale s n / scale s"
  have kx: "k * (posX (position s) - x0) + x0 + cx * zoom_newScale s n = x0"
    and ky: "k * (posY (position s) - y0) + y0 + cy * zoom_newScale s n = y0"
    using assms(3,5,6) by (simp_all add: k_def)
  have nofb: "\<not> zoom_fallback s n"
    using assms(4) by (auto simp add: zoom_fallback_def split: option.splits)
  have idle: "lockToBoundaries s \<Longrightarrow>
      lockClamp (k * (posX (position s) - x0) + x0) (width c * k) (width v) =
        k * (posX (position s) - x0) + x0 \<and>
      lockClamp (k * (posY (position s) - y0) + y0) (height c * k) (height v) =
        k * (posY (position s) - y0) + y0"
    using assms(1,2,4)
    by (simp add: zoom_clamp_idle_def coversFrame_def rescaled_def lockClamp_def Let_def k_def)
  have pos: "position (zoom s x0 y0 n) =
      \<lparr>posX = k * (posX (position s) - x0) + x0, posY = k * (posY (position s) - y0) + y0\<rparr>"
  proof -
    have z: "position (zoom s x0 y0 n) =
      (if lockToBoundaries s
       then \<lparr>posX = lockClamp (k * (posX (position s) - x0) + x0) (width c * k) (width v),
             posY = lockClamp (k * (posY (position s) - y0) + y0) (height c * k) (height v)\<rparr>
       else \<lparr>posX = k * (posX (position s) - x0) + x0,
             posY = k * (posY (position s) - y0) + y0\<rparr>)"
      using assms(1,2) nofb unfolding zoom_def zoom_fallback_def Let_def k_def
      by (auto simp add: scale_store_set_def position_store_update_def onPositionChange_def)
    show ?thesis using idle by (simp add: z)
  qed
  have sc: "scale (zoom s x0 y0 n) = onScaleChange s (scale s) (zoom_newScale s n)"
    using assms(1,2) nofb unfolding zoom_def zoom_fallback_def Let_def
    by (auto simp add: scale_store_set_def position_store_update_def)
  show ?thesis
    using kx ky zoom_newScale_accepted [where s = s and n = n and cur = "scale s"]
      zoom_newScale_rejected [where s = s and n = n and cur = "scale s"]
    by (auto simp add: pos sc)
qed


theorem zoom_anchor_witness:
  "(\<not> lockToBoundaries attachedViewer \<and> scale attachedViewer \<noteq> 0 \<and>
    250 = posX (position (zoom attachedViewer 250 100 (12 / 10))) +
            250 * zoom_newScale attachedViewer (12 / 10) \<and>
    100 = posY (position (zoom attachedViewer 250 100 (12 / 10))) +
            100 * zoom_newScale attachedViewer (12 / 10) \<and>
    scale (zoom attachedViewer 250 100 (12 / 10)) = zoom_newScale attachedViewer (12 / 10)) \<and>
   (lockToBoundaries lockedViewer \<and> \<not> zoom_fallback lockedViewer (12 / 10) \<and>
    zoom_clamp_idle lockedViewer 250 100 (12 / 10) \<and>
    250 = posX (position (zoom lockedViewer 250 100 (12 / 10))) +
            250 * zoom_newScale lockedViewer (12 / 10) \<and>
    100 = posY (position (zoom lockedViewer 250 100 (12 / 10))) +
            100 * zoom_newScale lockedViewer (12 / 10))"
  using zoom_anchor
    [where s = attachedViewer
       and c = "\<lparr>rectX = 0, rectY = 0, width = 1000, height = 1000\<rparr>"
       and v = "\<lparr>rectX = 0, rectY = 0, width = 500, height = 500\<rparr>"
       and ?x0.0 = 250 and ?y0.0 = 100 and n = "12 / 10" and cx = 250 and cy = 100]
    zoom_anchor
    [where s = lockedViewer
       and c = "\<lparr>rectX = 0, rectY = 0, width = 1000, height = 1000\<rparr>"
       and v = "\<lparr>rectX = 0, rectY = 0, width = 500, height = 500\<rparr>"
       and ?x0.0 = 250 and ?y0.0 = 100 and n = "12 / 10" and cx = 250 and cy = 100]
  by (simp add: lockedViewer_def attachedViewer_def defaultViewer_def zoom_fallback_def
      zoom_clamp_idle_def coversFrame_def rescaled_def zoom_newScale_def)

subsection \<open>Fitting\<close>






text \<open>The first call in the scenario: scale 0.6, and the content then measures 600.\<close>

lemma fitToViewer_scenario:
  "scale (fitToViewer attachedViewer False) = 6 / 10 \<and>
   containerRef (remeasured attachedViewer (fitToViewer attachedViewer False)) =
     Some \<lparr>rectX = 0, rectY = 0, width = 600, height = 600\<rparr>"
  by (simp add: fitToViewer_attached [where c = "\<lparr>rectX = 0, rectY = 0, width = 1000, height = 1000\<rparr>"
        and v = "\<lparr>rectX = 0, rectY = 0, width = 500, height = 500\<rparr>"]
      attachedViewer_def defaultViewer_def remeasured_def rescaled_def fit_newScale_def
      onScaleChange_def)

subsection \<open>Listeners\<close>




text \<open>
  The gate of the copy in \<open>part_000\<close> compares \<open>$scale * newScale\<close>: at scale 1.2 a
  pinch to 1.3 is committed by \<open>SVGViewer.ts\<close> and dropped by \<open>part_000\<close>, since
  \<open>1.2 * 1.3 > 1.4\<close>.
\<close>

lemma onPinchMove_part_000_gate:
  "map_sum id scale
     (onPinchMove zoomedPinchingViewer
        \<lparr>touches = [\<lparr>clientX = 0, clientY = 0\<rparr>, \<lparr>clientX = 130, clientY = 0\<rparr>]\<rparr>) = Inr (13 / 10) \<and>
   map_sum id scale
     (onPinchMove_part_000 zoomedPinchingViewer
        \<lparr>touches = [\<lparr>clientX = 0, clientY = 0\<rparr>, \<lparr>clientX = 130, clientY = 0\<rparr>]\<rparr>) = Inr (12 / 10)"
  by (simp add: zoomedPinchingViewer_def attachedViewer_def defaultViewer_def onPinchMove_def
      onPinchMove_part_000_def getPinchDistance_def getPinchCenter_def Let_def zoom_def
      zoom_newScale_def scale_store_set_def position_store_update_def onPositionChange_def
      onScaleChange_def)

text \<open>
  C7, as stated, at the defaults with the cursor at \<open>(250, 100)\<close> and a wheel delta of
  \<open>-100\<close>: the step is the mouse sensitivity 1.1 and the old scale 1. Dividing by
  the step would request \<open>1 / 1.1\<close>; \<open>onWheel\<close> requests, and \<open>zoom\<close> commits, the scale
  1.1, the old scale times the step.
\<close>

theorem onWheel_negative_delta_multiplies:
  "hasActionKeyPressed attachedViewer \<and>
   deltaY \<lparr>clientX = 250, clientY = 100, deltaX = 0, deltaY = - 100\<rparr> < 0 \<and>
   wheel_scaleStep attachedViewer \<lparr>clientX = 250, clientY = 100, deltaX = 0, deltaY = - 100\<rparr> = 11 / 10 \<and>
   scale attachedViewer /
     wheel_scaleStep attachedViewer \<lparr>clientX = 250, clientY = 100, deltaX = 0, deltaY = - 100\<rparr> = 10 / 11 \<and>
   onWheel attachedViewer \<lparr>clientX = 250, clientY = 100, deltaX = 0, deltaY = - 100\<rparr> =
     zoom attachedViewer 250 100 (11 / 10) \<and>
   scale (onWheel attachedViewer \<lparr>clientX = 250, clientY = 100, deltaX = 0, deltaY = - 100\<rparr>) = 11 / 10"
  by (simp add: attachedViewer_def defaultViewer_def onWheel_def wheel_delta_def
      wheel_scaleStep_def wheel_scaleDelta_def getMousePosition_def Let_def zoom_def
      zoom_newScale_def scale_store_set_def position_store_update_def onPositionChange_def
      onScaleChange_def)

text \<open>
  C7, amended: for a wheel event with both elements attached, the action key
  satisfied and both sensitivities not zero, let the delta be \<open>deltaY\<close>, or \<open>deltaX\<close>
  when \<open>deltaY\<close> is zero, and the step the mouse sensitivity when the absolute value
  of the delta exceeds 50 and the touchpad sensitivity otherwise. For a negative delta
  the new scale is the old scale times the step (the old scale divided by
  \<open>1 / step\<close>), which is larger than the old scale when the step is above 1 and the old
  scale positive; otherwise the new scale is the old scale divided by the step. The
  new scale is delegated to \<open>zoom\<close> at the cursor position relative to the frame.
\<close>

theorem onWheel_zoom:
  assumes "containerRef s = Some c" and "viewerRef s = Some v" and "hasActionKeyPressed s"
    and "scaleMouseSensitivity s \<noteq> 0" and "scaleTouchpadSensitivity s \<noteq> 0"
    and "delta = (if deltaY event \<noteq> 0 then deltaY event else deltaX event)"
    and "step = (if \<bar>delta\<bar> > 50 then scaleMouseSensitivity s else scaleTouchpadSensitivity s)"
  shows "onWheel s event =
           zoom s (clientX event - rectX v) (clientY event - rectY v)
             (if delta < 0 then scale s * step else scale s / step) \<and>
         (delta < 0 \<and> 1 < step \<and> 0 < scale s \<longrightarrow> scale s < scale s * step)"
  using assms
  by (auto simp add: onWheel_def Let_def wheel_delta_def wheel_scaleStep_def
      wheel_scaleDelta_def getMousePosition_def)

theorem onWheel_zoom_witness:
  "hasActionKeyPressed attachedViewer \<and>
   onWheel attachedViewer \<lparr>clientX = 250, clientY = 100, deltaX = 0, deltaY = - 100\<rparr> =
     zoom attachedViewer 250 100 (11 / 10) \<and>
   scale attachedViewer < scale attachedViewer * (11 / 10) \<and>
   onWheel attachedViewer \<lparr>clientX = 250, clientY = 100, deltaX = 7, deltaY = 0\<rparr> =
     zoom attachedViewer 250 100 (100 / 106) \<and>
   onWheel attachedViewer \<lparr>clientX = 250, clientY = 100, deltaX = - 100, deltaY = 0\<rparr> =
     zoom attachedViewer 250 100 (11 / 10)"
proof -
  have c: "containerRef attachedViewer = Some \<lparr>rectX = 0, rectY = 0, width = 1000, height = 1000\<rparr>"
    and v: "viewerRef attachedViewer = Some \<lparr>rectX = 0, rectY = 0, width = 500, height = 500\<rparr>"
    and k: "hasActionKeyPressed attachedViewer"
    and m: "scaleMouseSensitivity attachedViewer \<noteq> 0"
    and t: "scaleTouchpadSensitivity attachedViewer \<noteq> 0"
    and ms: "scaleMouseSensitivity attachedViewer = 11 / 10"
    and ts: "scaleTouchpadSensitivity attachedViewer = 106 / 100"
    and sc: "scale attachedViewer = 1"
    by (simp_all add: attachedViewer_def defaultViewer_def)
  note w = onWheel_zoom [OF c v k m t refl refl]
  have a: "onWheel attachedViewer \<lparr>clientX = 250, clientY = 100, deltaX = 0, deltaY = - 100\<rparr> =
      zoom attachedViewer 250 100 (11 / 10)"
    using w [of "\<lparr>clientX = 250, clientY = 100, deltaX = 0, deltaY = - 100\<rparr>"]
    by (simp add: ms ts sc)
  have b: "onWheel attachedViewer \<lparr>clientX = 250, clientY = 100, deltaX = 7, deltaY = 0\<rparr> =
      zoom attachedViewer 250 100 (100 / 106)"
    using w [of "\<lparr>clientX = 250, clientY = 100, deltaX = 7, deltaY = 0\<rparr>"]
    by (simp add: ms ts sc)
  have d: "onWheel attachedViewer \<lparr>clientX = 250, clientY = 100, deltaX = - 100, deltaY = 0\<rparr> =
      zoom attachedViewer 250 100 (11 / 10)"
    using w [of "\<lparr>clientX = 250, clientY = 100, deltaX = - 100, deltaY = 0\<rparr>"]
    by (simp add: ms ts sc)
  have z: "scale attachedViewer < scale attachedViewer * (11 / 10)"
    using w [of "\<lparr>clientX = 250, clientY = 100, deltaX = 0, deltaY = - 100\<rparr>"]
    by (simp add: ms ts sc)
  show ?thesis using k a b d z by blast
qed




end
